theory Spec2Isabelle
  imports Complex_Main "HOL-Library.Sublist" "HOL-Library.Product_Lexorder"
begin

section \<open>Amount cleaning (csv\_to\_postgres.py, clean\_amount)\<close>

text \<open>
  Strings are HOL strings (one \<open>char\<close> per character, ASCII). A float is modelled as a
  rational; \<open>None\<close> stands for NaN, the value \<open>pd.to_numeric(..., errors="coerce")\<close>
  gives to a cell that is not a number. The tokens for infinity are outside the model.
\<close>

definition is_digit :: "char \<Rightarrow> bool" where
  "is_digit c = (c \<in> set ''0123456789'')"

definition digit_val :: "char \<Rightarrow> nat" where
  "digit_val c = of_char c - 48"

definition digits_val :: "string \<Rightarrow> nat" where
  "digits_val s = foldl (\<lambda>a c. 10 * a + digit_val c) 0 s"

text \<open>The class \<open>\s\<close> of Python's \<open>re\<close> on the ASCII range.\<close>

definition is_space :: "char \<Rightarrow> bool" where
  "is_space c = (of_char c \<in> {9, 10, 11, 12, 13, 28, 29, 30, 31, 32 :: nat})"

text \<open>The exponent of a decimal literal: nothing, or \<open>e\<close>/\<open>E\<close>, an optional sign and digits.\<close>

definition parse_exponent :: "string \<Rightarrow> int option" where
  "parse_exponent r =
     (case r of
        [] \<Rightarrow> Some 0
      | c # t \<Rightarrow>
          if c = CHR ''e'' \<or> c = CHR ''E'' then
            (case t of
               [] \<Rightarrow> None
             | d # u \<Rightarrow>
                 if d = CHR ''-'' then
                   (if u \<noteq> [] \<and> list_all is_digit u then Some (- int (digits_val u)) else None)
                 else if d = CHR ''+'' then
                   (if u \<noteq> [] \<and> list_all is_digit u then Some (int (digits_val u)) else None)
                 else
                   (if list_all is_digit t then Some (int (digits_val t)) else None))
          else None)"

definition scale10 :: "rat \<Rightarrow> int \<Rightarrow> rat" where
  "scale10 m e = (if 0 \<le> e then m * 10 ^ nat e else m / 10 ^ nat (- e))"

text \<open>An unsigned decimal literal: digits, an optional point and digits, an optional exponent.\<close>

definition parse_unsigned :: "string \<Rightarrow> rat option" where
  "parse_unsigned s =
     (let ip = takeWhile is_digit s;
          r1 = dropWhile is_digit s;
          fp = (case r1 of [] \<Rightarrow> [] | c # t \<Rightarrow> if c = CHR ''.'' then takeWhile is_digit t else []);
          r2 = (case r1 of [] \<Rightarrow> [] | c # t \<Rightarrow> if c = CHR ''.'' then dropWhile is_digit t else r1)
      in if ip = [] \<and> fp = [] then None
         else (case parse_exponent r2 of
                 None \<Rightarrow> None
               | Some e \<Rightarrow> Some (scale10 (of_nat (digits_val (ip @ fp)) / 10 ^ length fp) e)))"

text \<open>\<open>pd.to_numeric(x, errors="coerce")\<close> on one string cell.\<close>

definition to_numeric :: "string \<Rightarrow> rat option" where
  "to_numeric s =
     (case s of
        [] \<Rightarrow> None
      | c # t \<Rightarrow>
          if c = CHR ''-'' then map_option uminus (parse_unsigned t)
          else if c = CHR ''+'' then parse_unsigned t
          else parse_unsigned s)"

text \<open>
  \<open>.str.replace(r'[,$\s]', '', regex=True)\<close> deletes commas, dollar signs and white space;
  \<open>.str.replace(r'[()]', '-', regex=True)\<close> then turns every parenthesis, opening or
  closing, into a minus sign.
\<close>

definition strip_currency :: "string \<Rightarrow> string" where
  "strip_currency s = filter (\<lambda>c. c \<noteq> CHR '','' \<and> c \<noteq> CHR ''$'' \<and> \<not> is_space c) s"

definition parens_to_minus :: "string \<Rightarrow> string" where
  "parens_to_minus s = map (\<lambda>c. if c = CHR ''('' \<or> c = CHR '')'' then CHR ''-'' else c) s"

definition cleaned :: "string \<Rightarrow> string" where
  "cleaned s = parens_to_minus (strip_currency s)"

text \<open>\<open>clean_amount\<close> maps a column (a Series of strings) to a column of floats.\<close>

definition clean_amount :: "string list \<Rightarrow> rat option list" where
  "clean_amount s = map (\<lambda>x. to_numeric (cleaned x)) s"

section \<open>Normalized rows and their fingerprints (csv\_to\_postgres.py)\<close>

text \<open>
  A value of a row dictionary: a string, a float, or the float NaN. The functions below
  take \<open>row: dict\<close>, so a row is a map from column names to cells and \<open>row.get(k, d)\<close>
  falls back to \<open>d\<close> on a missing key.
\<close>

datatype cell = Str string | Num rat | NaN

type_synonym pyrow = "string \<rightharpoonup> cell"

datatype error = ValueError | IntegrityError | StoreError

text \<open>
  The payload that \<open>row_content_hash\<close> serializes: a dict literal that always has the
  same eight keys. \<open>bal\<close> is either the empty string (\<open>None\<close> here) or a float.
\<close>

record payload =
  p_date :: string
  p_desc :: string
  p_amount :: rat
  p_txn :: string
  p_ref :: string
  p_time :: string
  p_acct :: string
  p_bal :: "rat option"

text \<open>
  Library functions the code calls and the repository does not define: the two digests of
  \<open>hashlib\<close> (as hex strings), \<open>json.dumps\<close> of the payload, Python's formatting of a
  float (\<open>str\<close> and \<open>:.2f\<close>), \<open>pd.to_datetime(x).date()\<close> as a day number and the
  ISO text of such a date. They are parameters of the model.
\<close>

record lib =
  sha256_hex :: "string \<Rightarrow> string"
  md5_hex :: "string \<Rightarrow> string"
  json_dumps :: "payload \<Rightarrow> string"
  float_str :: "rat \<Rightarrow> string"
  fmt_2f :: "rat \<Rightarrow> string"
  to_date :: "string \<Rightarrow> int"
  date_str :: "int \<Rightarrow> string"

definition isna :: "cell \<Rightarrow> bool" where
  "isna c = (c = NaN)"

definition py_str :: "lib \<Rightarrow> cell \<Rightarrow> string" where
  "py_str L c = (case c of Str s \<Rightarrow> s | Num r \<Rightarrow> float_str L r | NaN \<Rightarrow> ''nan'')"

text \<open>
  \<open>float(x)\<close>: a float is itself, a string is parsed (the decimal grammar above) and
  raises ValueError when it is not a number. \<open>None\<close> as a result stands for NaN.
\<close>

definition py_float :: "cell \<Rightarrow> error + rat option" where
  "py_float c =
     (case c of
        Num r \<Rightarrow> Inr (Some r)
      | NaN \<Rightarrow> Inr None
      | Str s \<Rightarrow> (case to_numeric s of None \<Rightarrow> Inl ValueError | Some r \<Rightarrow> Inr (Some r)))"

definition get :: "pyrow \<Rightarrow> string \<Rightarrow> cell \<Rightarrow> cell" where
  "get row k d = (case row k of None \<Rightarrow> d | Some v \<Rightarrow> v)"

text \<open>The first lines of both fingerprint functions: a missing date is the empty string,
  a missing amount is 0.0.\<close>

definition date_val :: "pyrow \<Rightarrow> cell" where
  "date_val row =
     (let d = get row ''Date'' (Str '''') in if isna d \<or> d = Str ''NaT'' then Str '''' else d)"

definition amount_val :: "pyrow \<Rightarrow> cell" where
  "amount_val row = (let a = get row ''Amount'' (Num 0) in if isna a then Num 0 else a)"

definition row_payload :: "lib \<Rightarrow> pyrow \<Rightarrow> error + payload" where
  "row_payload L row =
     (let balance_val = get row ''Balance'' (Str '''') in
      case (if isna balance_val \<or> balance_val = Str '''' then Inr None else py_float balance_val) of
        Inl e \<Rightarrow> Inl e
      | Inr bal \<Rightarrow>
          (case py_float (amount_val row) of
             Inl e \<Rightarrow> Inl e
           | Inr None \<Rightarrow> Inl ValueError
           | Inr (Some a) \<Rightarrow>
               Inr \<lparr> p_date = py_str L (date_val row),
                     p_desc = py_str L (get row ''Description'' (Str '''')),
                     p_amount = a,
                     p_txn = py_str L (get row ''TxnId'' (Str '''')),
                     p_ref = py_str L (get row ''Reference'' (Str '''')),
                     p_time = py_str L (get row ''Time'' (Str '''')),
                     p_acct = py_str L (get row ''Account'' (Str '''')),
                     p_bal = bal \<rparr>))"

definition row_content_hash :: "lib \<Rightarrow> pyrow \<Rightarrow> error + string" where
  "row_content_hash L row =
     (case row_payload L row of
        Inl e \<Rightarrow> Inl e
      | Inr p \<Rightarrow> Inr (take 16 (sha256_hex L (json_dumps L p))))"

text \<open>\<open>str.strip()\<close>: white space off both ends.\<close>

definition strip :: "string \<Rightarrow> string" where
  "strip s = rev (dropWhile is_space (rev (dropWhile is_space s)))"

definition possible_dup_group :: "lib \<Rightarrow> pyrow \<Rightarrow> error + string" where
  "possible_dup_group L row =
     (case py_float (amount_val row) of
        Inl e \<Rightarrow> Inl e
      | Inr None \<Rightarrow> Inl ValueError
      | Inr (Some a) \<Rightarrow>
          Inr (take 10 (sha256_hex L
                 (py_str L (date_val row) @ ''|'' @
                  strip (py_str L (get row ''Description'' (Str ''''))) @ ''|'' @ fmt_2f L a))))"

text \<open>\<open>stable_rowhash(date, description, amount)\<close>: the MD5 of the three values joined by bars.\<close>

definition stable_rowhash :: "lib \<Rightarrow> int \<Rightarrow> string \<Rightarrow> rat \<Rightarrow> string" where
  "stable_rowhash L d desc a = md5_hex L (date_str L d @ ''|'' @ desc @ ''|'' @ float_str L a)"

text \<open>
  A row of the frame that \<open>normalize_csv\<close> builds. \<open>Date\<close> and the identifier columns are
  strings (empty when the file has no such column), \<open>Amount\<close> is a float that is not NaN
  (rows with a NaN amount are filtered out), and \<open>Balance\<close> is the empty string when the
  file has no balance column and the result of \<open>pd.to_numeric(..., errors="coerce")\<close>
  otherwise.
\<close>

datatype balance_cell = BalanceBlank | BalanceNum rat | BalanceNaN

record row =
  Date :: string
  Description :: string
  Amount :: rat
  Source :: string
  TxnId :: string
  Reference :: string
  Time :: string
  Account :: string
  Balance :: balance_cell
  OriginalHash :: string
  PossibleDupGroup :: string

definition balance_to_cell :: "balance_cell \<Rightarrow> cell" where
  "balance_to_cell b = (case b of BalanceBlank \<Rightarrow> Str '''' | BalanceNum r \<Rightarrow> Num r | BalanceNaN \<Rightarrow> NaN)"

text \<open>The dictionary view of a frame row that \<open>iterrows()\<close> hands to the fingerprint functions.\<close>

definition row_dict :: "row \<Rightarrow> pyrow" where
  "row_dict r =
     [''Date'' \<mapsto> Str (Date r), ''Description'' \<mapsto> Str (Description r),
      ''Amount'' \<mapsto> Num (Amount r), ''Source'' \<mapsto> Str (Source r),
      ''TxnId'' \<mapsto> Str (TxnId r), ''Reference'' \<mapsto> Str (Reference r),
      ''Time'' \<mapsto> Str (Time r), ''Account'' \<mapsto> Str (Account r),
      ''Balance'' \<mapsto> balance_to_cell (Balance r)]"

section \<open>Tiered deduplication (csv\_to\_postgres.py, deduplicate\_dataframe)\<close>

text \<open>\<open>DataFrame.drop_duplicates(subset=..., keep="first")\<close>: walk the rows in order and keep a
  row when its key has not been seen.\<close>

fun drop_duplicates_from :: "('a \<Rightarrow> 'k) \<Rightarrow> 'k list \<Rightarrow> 'a list \<Rightarrow> 'a list" where
  "drop_duplicates_from key seen [] = []"
| "drop_duplicates_from key seen (x # xs) =
     (if key x \<in> set seen then drop_duplicates_from key seen xs
      else x # drop_duplicates_from key (key x # seen) xs)"

definition drop_duplicates :: "('a \<Rightarrow> 'k) \<Rightarrow> 'a list \<Rightarrow> 'a list" where
  "drop_duplicates key xs = drop_duplicates_from key [] xs"

definition mask1 :: "row \<Rightarrow> bool" where
  "mask1 r = (TxnId r \<noteq> '''' \<and> Account r \<noteq> '''')"

definition key1 :: "row \<Rightarrow> string \<times> string" where
  "key1 r = (TxnId r, Account r)"

definition mask2 :: "row \<Rightarrow> bool" where
  "mask2 r = (Reference r \<noteq> '''')"

definition key2 :: "row \<Rightarrow> string \<times> string \<times> rat \<times> string" where
  "key2 r = (Reference r, Date r, Amount r, Time r)"

text \<open>Rule 1 and rule 2 have the same shape: split by the mask, deduplicate the rows that
  carry the fields, and concatenate them in front of the rest.\<close>

definition rule1 :: "row list \<Rightarrow> row list" where
  "rule1 df =
     (if list_ex mask1 df
      then drop_duplicates key1 (filter mask1 df) @ filter (\<lambda>r. \<not> mask1 r) df
      else df)"

definition rule2 :: "row list \<Rightarrow> row list" where
  "rule2 df =
     (if list_ex mask2 df
      then drop_duplicates key2 (filter mask2 df) @ filter (\<lambda>r. \<not> mask2 r) df
      else df)"

definition rule3 :: "row list \<Rightarrow> row list" where
  "rule3 df = drop_duplicates OriginalHash df"

definition deduplicate_dataframe :: "row list \<Rightarrow> row list" where
  "deduplicate_dataframe df = (if df = [] then df else rule3 (rule2 (rule1 df)))"

text \<open>Lines 311 and 312 of \<open>normalize_csv\<close>: the two metadata columns are computed from the
  row as it stands before they are added.\<close>

definition add_metadata :: "lib \<Rightarrow> row \<Rightarrow> error + row" where
  "add_metadata L r =
     (case row_content_hash L (row_dict r) of
        Inl e \<Rightarrow> Inl e
      | Inr h \<Rightarrow>
          (case possible_dup_group L (row_dict r) of
             Inl e \<Rightarrow> Inl e
           | Inr g \<Rightarrow> Inr (r\<lparr>OriginalHash := h, PossibleDupGroup := g\<rparr>)))"

section \<open>The store (database/models.py, database/database.py)\<close>

text \<open>
  The keyword arguments of \<open>Transaction(**t)\<close>, as \<open>prepare_transactions_for_db\<close> builds
  them. A date is a day number.
\<close>

record prepared =
  date :: int
  description :: string
  amount :: rat
  category :: "string option"
  vendor :: "string option"
  source :: "string option"
  txn_id :: "string option"
  reference :: "string option"
  account :: "string option"
  balance :: "rat option"
  original_hash :: string
  possible_dup_group_col :: "string option"
  row_hash :: string
  time_part :: "string option"

text \<open>
  A row of the table \<open>transactions\<close>: the columns above, the primary key, and the three
  columns that the statements of the management tools write (\<open>deleted_at\<close>,
  \<open>deletion_reason\<close>, \<open>notes\<close>, here \<open>tx_notes\<close>). The table is modelled with the columns
  that the statements name: database/models.py and the migration declare none of these
  three, nor the \<open>notes\<close> of \<open>processing_log\<close>, and a statement that the store rejects is a
  failing statement of the fault oracle below. Time stamps are natural numbers;
  \<open>created_at\<close> and \<open>updated_at\<close> are left out.
\<close>

record txn = prepared +
  tid :: int
  deleted_at :: "nat option"
  deletion_reason :: "string option"
  tx_notes :: "string option"

text \<open>A row of the table \<open>duplicate_review\<close>: one row per member of a group.\<close>

record review =
  group_id :: string
  transaction_id :: int
  similarity_score :: rat
  reviewed :: bool
  action_taken :: "string option"
  reviewed_by :: "string option"
  reviewed_at :: "nat option"
  review_notes :: "string option"
  created_at :: nat

text \<open>A row of the table \<open>processing_log\<close>.\<close>

record log_entry =
  pl_id :: int
  operation_type :: string
  source_file :: "string option"
  records_processed :: nat
  records_inserted :: nat
  records_updated :: nat
  records_skipped :: nat
  error_count :: nat
  status :: string
  details :: "string option"
  log_notes :: "string option"

record db =
  transactions :: "txn list"
  duplicate_review :: "review list"
  processing_log :: "log_entry list"

definition next_tid :: "txn list \<Rightarrow> int" where
  "next_tid ts = foldr max (map tid ts) 0 + 1"

definition next_pl_id :: "log_entry list \<Rightarrow> int" where
  "next_pl_id es = foldr max (map pl_id es) 0 + 1"

text \<open>A new row gets the next key; the soft-delete columns start as NULL.\<close>

definition stored :: "int \<Rightarrow> prepared \<Rightarrow> txn" where
  "stored i p = prepared.extend p (txn.fields i None None None)"

fun store_all :: "int \<Rightarrow> prepared list \<Rightarrow> txn list" where
  "store_all i [] = []"
| "store_all i (p # ps) = stored i p # store_all (i + 1) ps"

text \<open>
  \<open>get_existing_row_hashes\<close>: the stored hashes among the ones asked for.
\<close>

definition get_existing_row_hashes :: "db \<Rightarrow> string list \<Rightarrow> string set" where
  "get_existing_row_hashes d row_hashes =
     (if row_hashes = [] then {}
      else set (filter (\<lambda>h. h \<in> set row_hashes) (map row_hash (transactions d))))"

text \<open>
  \<open>insert_transactions_batch\<close> adds all rows in one session, which commits on leaving the
  \<open>with\<close> block and rolls back when the commit raises. The commit raises when two rows
  carry the same \<open>row_hash\<close> (the column is unique) and when the store rejects a row for
  another column constraint; \<open>accepts\<close> stands for those other constraints and is a
  parameter.
\<close>

definition insert_transactions_batch ::
  "(prepared \<Rightarrow> bool) \<Rightarrow> db \<Rightarrow> prepared list \<Rightarrow> error + (nat \<times> db)" where
  "insert_transactions_batch accepts d ts =
     (if ts = [] then Inr (0, d)
      else if distinct (map row_hash ts)
              \<and> \<not> list_ex (\<lambda>t. row_hash t \<in> set (map row_hash (transactions d))) ts
              \<and> list_all accepts ts
      then Inr (length ts,
                d\<lparr>transactions := transactions d @ store_all (next_tid (transactions d)) ts\<rparr>)
      else Inl IntegrityError)"

definition start_operation :: "db \<Rightarrow> string \<Rightarrow> string option \<Rightarrow> string option \<Rightarrow> int \<times> db" where
  "start_operation d op src det =
     (let i = next_pl_id (processing_log d) in
      (i, d\<lparr>processing_log := processing_log d @
             [\<lparr> pl_id = i, operation_type = op, source_file = src, records_processed = 0,
                records_inserted = 0, records_updated = 0, records_skipped = 0,
                error_count = 0, status = ''pending'', details = det, log_notes = None \<rparr>]\<rparr>))"

fun update_first :: "('a \<Rightarrow> bool) \<Rightarrow> ('a \<Rightarrow> 'a) \<Rightarrow> 'a list \<Rightarrow> 'a list" where
  "update_first P f [] = []"
| "update_first P f (x # xs) = (if P x then f x # xs else x # update_first P f xs)"

definition complete_operation ::
  "db \<Rightarrow> int \<Rightarrow> nat \<Rightarrow> nat \<Rightarrow> nat \<Rightarrow> nat \<Rightarrow> string \<Rightarrow> string option \<Rightarrow> db" where
  "complete_operation d log_id processed inserted skipped errors st det =
     d\<lparr>processing_log :=
         update_first (\<lambda>e. pl_id e = log_id)
           (\<lambda>e. e\<lparr>records_processed := processed, records_inserted := inserted,
                  records_updated := 0, records_skipped := skipped, error_count := errors,
                  status := st, details := det\<rparr>)
           (processing_log d)\<rparr>"

section \<open>Ingestion (csv\_to\_postgres.py, prepare\_transactions\_for\_db and main)\<close>

definition opt_str :: "string \<Rightarrow> string option" where
  "opt_str s = (if s \<noteq> [] then Some s else None)"

text \<open>
  One iteration of the loop of \<open>prepare_transactions_for_db\<close>. The balance is
  \<open>float(row['Balance']) if pd.notna(row['Balance']) else None\<close>: the empty string of a
  file without a balance column is not NA, and \<open>float('')\<close> raises ValueError.
\<close>

definition prepare_row :: "lib \<Rightarrow> row \<Rightarrow> error + prepared" where
  "prepare_row L r =
     (let dv = to_date L (Date r);
          rh = stable_rowhash L dv (Description r) (Amount r)
      in case (if \<not> isna (balance_to_cell (Balance r)) then py_float (balance_to_cell (Balance r))
               else Inr None) of
           Inl e \<Rightarrow> Inl e
         | Inr bal \<Rightarrow>
             Inr \<lparr> date = dv, description = Description r, amount = Amount r,
                   category = None, vendor = None, source = opt_str (Source r),
                   txn_id = opt_str (TxnId r), reference = opt_str (Reference r),
                   account = opt_str (Account r), balance = bal,
                   original_hash = OriginalHash r,
                   possible_dup_group_col = opt_str (PossibleDupGroup r),
                   row_hash = rh, time_part = opt_str (Time r) \<rparr>)"

fun prepare_transactions_for_db :: "lib \<Rightarrow> row list \<Rightarrow> error + prepared list" where
  "prepare_transactions_for_db L [] = Inr []"
| "prepare_transactions_for_db L (r # rs) =
     (case prepare_row L r of
        Inl e \<Rightarrow> Inl e
      | Inr t \<Rightarrow>
          (case prepare_transactions_for_db L rs of
             Inl e \<Rightarrow> Inl e
           | Inr ts \<Rightarrow> Inr (t # ts)))"

text \<open>
  What a run of \<open>main\<close> ends with: an exit code together with the value of
  \<open>inserted_count\<close>, or an exception that nothing catches.
\<close>

datatype outcome = Exit int nat | Raised error

text \<open>
  \<open>main\<close> from the start of the processing log on. \<open>all_data\<close> is the list of frames of
  the files that normalized without an error, \<open>error_files\<close> the number of the others.
\<close>

definition ingest ::
  "lib \<Rightarrow> (prepared \<Rightarrow> bool) \<Rightarrow> string \<Rightarrow> string \<Rightarrow> nat \<Rightarrow> db \<Rightarrow> row list list \<Rightarrow> outcome \<times> db" where
  "ingest L accepts input_path files error_files d0 all_data =
     (let (log_id, d) = start_operation d0 ''csv_import_postgres'' (Some input_path) (Some files) in
      if all_data = [] then
        (Exit 1 0, complete_operation d log_id 0 0 0 0 ''failed'' (Some ''No data processed''))
      else
        let combined_df = concat all_data;
            deduped_df = deduplicate_dataframe combined_df
        in case prepare_transactions_for_db L deduped_df of
             Inl e \<Rightarrow> (Raised e, d)
           | Inr ts \<Rightarrow>
               let row_hashes = map row_hash ts;
                   existing_hashes = get_existing_row_hashes d row_hashes;
                   new_transactions = filter (\<lambda>t. row_hash t \<notin> existing_hashes) ts;
                   skipped_count = length ts - length new_transactions
               in if new_transactions \<noteq> [] then
                    (case insert_transactions_batch accepts d new_transactions of
                       Inl e \<Rightarrow>
                         (Exit 1 0,
                          complete_operation d log_id (length ts) 0 skipped_count error_files
                            ''failed'' (Some ''error''))
                     | Inr (n, d') \<Rightarrow>
                         (Exit 0 n,
                          complete_operation d' log_id (length ts) (length new_transactions)
                            skipped_count error_files ''completed'' None))
                  else
                    (Exit 0 0,
                     complete_operation d log_id (length ts) (length new_transactions)
                       skipped_count error_files ''completed'' None))"

section \<open>Statements of the management tools (mcp/tools/management\_tools.py)\<close>



definition digit_char :: "nat \<Rightarrow> char" where
  "digit_char n = char_of (48 + n)"

fun digits_of :: "nat \<Rightarrow> string" where
  "digits_of n = (if n < 10 then [digit_char n] else digits_of (n div 10) @ [digit_char (n mod 10)])"

declare digits_of.simps [simp del]

definition str_int :: "int \<Rightarrow> string" where
  "str_int i = (if i < 0 then CHR ''-'' # digits_of (nat (- i)) else digits_of (nat i))"


definition lower_char :: "char \<Rightarrow> char" where
  "lower_char c = (if 65 \<le> (of_char c :: nat) \<and> (of_char c :: nat) \<le> 90 then char_of (of_char c + 32 :: nat) else c)"

definition lower :: "string \<Rightarrow> string" where
  "lower s = map lower_char s"


text \<open>\<open>COALESCE(notes || '; ', '') || x\<close>\<close>

definition append_note :: "string option \<Rightarrow> string \<Rightarrow> string option" where
  "append_note old x = (case old of None \<Rightarrow> Some x | Some n \<Rightarrow> Some (n @ ''; '' @ x))"

section \<open>Staging duplicates for review (stage\_duplicates\_for\_review)\<close>













section \<open>Reviewing a group (review\_duplicate)\<close>

record review_params =
  rp_group_id :: string
  rp_action :: string
  keep_transaction_id :: "int option"
  rp_notes :: string

text \<open>The first SELECT: the transactions joined to the unreviewed rows of the group,
  \<open>ORDER BY t.date\<close>.\<close>

definition group_transactions :: "db \<Rightarrow> string \<Rightarrow> txn list" where
  "group_transactions d gid =
     sort_key date
       (concat (map (\<lambda>r. filter (\<lambda>t. tid t = transaction_id r) (transactions d))
                  (filter (\<lambda>r. group_id r = gid \<and> \<not> reviewed r) (duplicate_review d))))"


text \<open>The UPDATE that soft-deletes one transaction.\<close>

definition mark_deleted :: "nat \<Rightarrow> int \<Rightarrow> txn \<Rightarrow> txn" where
  "mark_deleted now keep t =
     t\<lparr>deleted_at := Some now, deletion_reason := Some ''duplicate_review'',
       tx_notes := append_note (tx_notes t) (''Duplicate of transaction '' @ str_int keep)\<rparr>"

definition soft_delete :: "nat \<Rightarrow> int \<Rightarrow> int \<Rightarrow> db \<Rightarrow> db" where
  "soft_delete now keep i d =
     d\<lparr>transactions :=
         map (\<lambda>t. if tid t = i then mark_deleted now keep t else t) (transactions d)\<rparr>"


text \<open>The UPDATE that marks the review as completed: every row of the group id.\<close>

definition mark_reviewed :: "nat \<Rightarrow> review_params \<Rightarrow> db \<Rightarrow> db" where
  "mark_reviewed now params d =
     d\<lparr>duplicate_review :=
         map (\<lambda>r. if group_id r = rp_group_id params
                  then r\<lparr>reviewed := True, action_taken := Some (rp_action params),
                         reviewed_by := Some ''mcp_user'', reviewed_at := Some now,
                         review_notes := append_note (review_notes r)
                           (if rp_notes params \<noteq> [] then ''User decision: '' @ rp_notes params
                            else ''Action: '' @ rp_action params)\<rparr>
                  else r)
           (duplicate_review d)\<rparr>"

text \<open>The INSERT into \<open>processing_log\<close>: the audit record of the review.\<close>

definition insert_log :: "review_params \<Rightarrow> nat \<Rightarrow> string \<Rightarrow> db \<Rightarrow> db" where
  "insert_log params n action_result d =
     d\<lparr>processing_log := processing_log d @
         [\<lparr> pl_id = next_pl_id (processing_log d), operation_type = ''duplicate_review'',
            source_file = Some (''group_'' @ rp_group_id params), records_processed = n,
            records_inserted = 0, records_updated = 0, records_skipped = 0, error_count = 0,
            status = ''completed'', details = None,
            log_notes = Some (''Action: '' @ rp_action params @ ''; '' @ action_result) \<rparr>]\<rparr>"




section \<open>Amount columns of a frame (parse\_amount\_series), and the cleaning of csv\_to\_raw.py\<close>

text \<open>
  The frame of a file as \<open>pd.read_csv(path, dtype=str, ...)\<close> returns it: the columns in
  file order, every cell as the string that \<open>astype(str)\<close> makes of it (an empty cell
  reads \<open>nan\<close>).
\<close>

type_synonym frame = "(string \<times> string list) list"

definition columns :: "frame \<Rightarrow> string list" where
  "columns df = map fst df"

definition column :: "frame \<Rightarrow> string \<Rightarrow> string list" where
  "column df c = (case map_of df c of None \<Rightarrow> [] | Some v \<Rightarrow> v)"

definition nrows :: "frame \<Rightarrow> nat" where
  "nrows df = (case df of [] \<Rightarrow> 0 | cv # _ \<Rightarrow> length (snd cv))"

definition AMOUNT_SINGLE :: "string list" where
  "AMOUNT_SINGLE = [''Amount'', ''Amount ($)'', ''Transaction Amount'', ''Purchase Amount'', ''Amt'']"

definition DEBIT_COLS :: "string list" where
  "DEBIT_COLS = [''Debit'', ''Withdrawal'', ''Withdrawals'', ''Outflow'', ''Charges'']"

definition CREDIT_COLS :: "string list" where
  "CREDIT_COLS = [''Credit'', ''Deposit'', ''Deposits'', ''Inflow'', ''Income'']"

definition TYPE_COLS :: "string list" where
  "TYPE_COLS = [''Type'', ''Transaction Type'', ''Category'', ''Debit/Credit'']"

text \<open>The first candidate name that is a column of the frame (the \<open>for ... in ...: if ... in df.columns\<close> loops).\<close>

definition first_present :: "string list \<Rightarrow> frame \<Rightarrow> string option" where
  "first_present cands df = find (\<lambda>c. c \<in> set (columns df)) cands"

text \<open>Python's \<open>s in x\<close> on strings.\<close>

fun contains :: "string \<Rightarrow> string \<Rightarrow> bool" where
  "contains s [] = (s = [])"
| "contains s (c # cs) = (prefix s (c # cs) \<or> contains s cs)"

definition fillna0 :: "rat option \<Rightarrow> rat" where
  "fillna0 v = (case v of None \<Rightarrow> 0 | Some r \<Rightarrow> r)"

definition type_sign :: "string \<Rightarrow> rat" where
  "type_sign x =
     (let l = lower x
      in if contains ''debit'' l \<or> l \<in> set [''dr'', ''withdrawal'', ''charge''] then - 1 else 1)"

fun type_based :: "string list \<Rightarrow> frame \<Rightarrow> rat option list option" where
  "type_based [] df = None"
| "type_based (tcol # rest) df =
     (if tcol \<in> set (columns df) then
        (case find (\<lambda>c. c \<noteq> tcol \<and> (contains ''amount'' (lower c) \<or> contains ''value'' (lower c)))
                (columns df) of
           Some c \<Rightarrow>
             Some (map2 (\<lambda>s x. map_option (\<lambda>v. v * type_sign x) s)
                     (clean_amount (column df c)) (column df tcol))
         | None \<Rightarrow> type_based rest df)
      else type_based rest df)"

text \<open>
  \<open>parse_amount_series\<close>: case A, a single amount column; case B, debit and credit
  columns, a missing one counted as zeros and NaN filled with zero; case C, an amount
  column signed by a type column. \<open>None\<close> is the return value \<open>None\<close>.
\<close>

definition parse_amount_series :: "frame \<Rightarrow> rat option list option" where
  "parse_amount_series df =
     (case first_present AMOUNT_SINGLE df of
        Some amtcol \<Rightarrow> Some (clean_amount (column df amtcol))
      | None \<Rightarrow>
          (let debit = map_option (\<lambda>dc. clean_amount (column df dc)) (first_present DEBIT_COLS df);
               credit = map_option (\<lambda>cc. clean_amount (column df cc)) (first_present CREDIT_COLS df)
           in if debit \<noteq> None \<or> credit \<noteq> None then
                (let d = (case debit of Some v \<Rightarrow> v | None \<Rightarrow> replicate (nrows df) (Some 0));
                     c = (case credit of Some v \<Rightarrow> v | None \<Rightarrow> replicate (nrows df) (Some 0))
                 in Some (map2 (\<lambda>cv dv. Some (fillna0 cv - fillna0 dv)) c d))
              else type_based TYPE_COLS df))"

text \<open>
  The \<open>clean_amount\<close> of csv\_to\_raw.py, the sibling loader: the mask
  \<open>neg\<close> (the string opens with a parenthesis, closes with one, and has no line break in
  between) is taken before the parentheses are removed, and the masked entries are set to
  \<open>-out.abs()\<close>.
\<close>

definition parenthesized :: "string \<Rightarrow> bool" where
  "parenthesized s =
     (case s of
        [] \<Rightarrow> False
      | c # t \<Rightarrow> c = CHR ''('' \<and> t \<noteq> [] \<and> last t = CHR '')'' \<and> CHR 0x0A \<notin> set (butlast t))"

definition clean_amount_raw :: "string list \<Rightarrow> rat option list" where
  "clean_amount_raw series =
     map (\<lambda>x. let s = filter (\<lambda>c. c \<noteq> CHR '','' \<and> c \<noteq> CHR ''$'') (strip x);
                  neg = parenthesized s;
                  out = to_numeric (filter (\<lambda>c. c \<noteq> CHR ''('' \<and> c \<noteq> CHR '')'') s)
              in if neg then map_option (\<lambda>v. - \<bar>v\<bar>) out else out)
       series"

section \<open>What a tier guarantees, and example rows\<close>

text \<open>Two rows share a tier key when one of the rules 1 to 3 would take them for duplicates.\<close>

definition shares_tier_key :: "row \<Rightarrow> row \<Rightarrow> bool" where
  "shares_tier_key r r' =
     ((mask1 r \<and> mask1 r' \<and> key1 r = key1 r') \<or>
      (mask2 r \<and> mask2 r' \<and> key2 r = key2 r') \<or>
      OriginalHash r = OriginalHash r')"

definition inserted_count :: "outcome \<Rightarrow> nat" where
  "inserted_count out = (case out of Exit c n \<Rightarrow> n | Raised e \<Rightarrow> 0)"

text \<open>
  The guarantee of one tier, in the words of the specification: rows that do not carry the
  tier's fields pass through untouched and in their order; of the rows that carry them no
  two kept rows share the key, the kept rows stay in their order, and for every key the
  kept row is the first one with that key in the tier's input.
\<close>

definition keeps_first :: "('a \<Rightarrow> bool) \<Rightarrow> ('a \<Rightarrow> 'k) \<Rightarrow> 'a list \<Rightarrow> 'a list \<Rightarrow> bool" where
  "keeps_first carries key inp out =
     (filter (\<lambda>r. \<not> carries r) out = filter (\<lambda>r. \<not> carries r) inp \<and>
      subseq (filter carries out) (filter carries inp) \<and>
      distinct (map key (filter carries out)) \<and>
      (\<forall>k. find (\<lambda>r. carries r \<and> key r = k) out = find (\<lambda>r. carries r \<and> key r = k) inp))"

text \<open>
  The rows of the scenarios of the specification. The two hash columns hold the digests
  that SHA-256 gives for these rows.
\<close>

definition coffee :: row where
  "coffee =
     \<lparr> Date = ''2024-01-03'', Description = ''COFFEE SHOP #102'', Amount = - (9 / 2),
       Source = '''', TxnId = '''', Reference = '''', Time = '''', Account = '''',
       Balance = BalanceNum 100, OriginalHash = ''843ec45e3e9e8897'',
       PossibleDupGroup = ''1829846c14'' \<rparr>"

definition coffee_ref :: row where
  "coffee_ref = coffee\<lparr>Reference := ''R77'', OriginalHash := ''3ba5ddbeec35f642''\<rparr>"

definition coffee_ref_txn :: row where
  "coffee_ref_txn =
     coffee\<lparr>TxnId := ''T9'', Account := ''1234'', Reference := ''R77'',
            OriginalHash := ''57667d02a1f50f2d''\<rparr>"

definition coffee_t1 :: row where
  "coffee_t1 = coffee\<lparr>TxnId := ''T1'', Account := ''1234'', OriginalHash := ''3478c8be204465ad''\<rparr>"

definition coffee_t2 :: row where
  "coffee_t2 = coffee\<lparr>TxnId := ''T2'', Account := ''1234'', OriginalHash := ''ed22f909de6e4920''\<rparr>"

definition empty_db :: db where
  "empty_db = \<lparr> transactions = [], duplicate_review = [], processing_log = [] \<rparr>"

section \<open>Notions of the review workflow, and an example store\<close>


text \<open>A transaction counts as soft-deleted by a review at time \<open>now\<close>.\<close>

definition soft_deleted :: "nat \<Rightarrow> txn \<Rightarrow> bool" where
  "soft_deleted now t =
     (deleted_at t = Some now \<and> deletion_reason t = Some ''duplicate_review'' \<and> tx_notes t \<noteq> None)"





text \<open>Three stored purchases at the same shop for the same amount on three days in a row
  (2024-01-03, 2024-01-02, 2024-01-01 as day numbers), with their digests.\<close>

definition coffee_tx :: "int \<Rightarrow> int \<Rightarrow> string \<Rightarrow> string \<Rightarrow> string \<Rightarrow> txn" where
  "coffee_tx i day oh grp rh =
     stored i \<lparr> date = day, description = ''COFFEE SHOP #102'', amount = - (9 / 2),
                category = None, vendor = None, source = None, txn_id = None,
                reference = None, account = None, balance = Some 100, original_hash = oh,
                possible_dup_group_col = Some grp, row_hash = rh, time_part = None \<rparr>"









section \<open>Theorems\<close>

lemma clean_amount_plain_examples:
  "clean_amount [''4.50'', ''-4.50'', ''$1,234.56'', ''12'', ''abc''] =
     [Some (9 / 2), Some (- (9 / 2)), Some (30864 / 25), Some 12, None]"
  by (simp add: clean_amount_def cleaned_def parens_to_minus_def strip_currency_def is_space_def
      to_numeric_def parse_unsigned_def parse_exponent_def scale10_def digits_val_def
      digit_val_def is_digit_def)

lemma dropWhile_snoc_last:
  "\<not> P c \<Longrightarrow> dropWhile P (y @ [c]) \<noteq> [] \<and> last (dropWhile P (y @ [c])) = c"
  by (induction y) auto

lemma minus_not_digit: "\<not> is_digit CHR ''-''"
  by (simp add: is_digit_def)

lemma not_all_digits_last_minus: "u \<noteq> [] \<Longrightarrow> last u = CHR ''-'' \<Longrightarrow> \<not> list_all is_digit u"
proof
  assume a: "u \<noteq> []" "last u = CHR ''-''" "list_all is_digit u"
  have "last u \<in> set u" using a(1) by (rule last_in_set)
  then have "is_digit (last u)" using a(3) by (simp add: list_all_iff)
  then show False using a(2) minus_not_digit by simp
qed

lemma parse_exponent_last_minus:
  assumes "r \<noteq> []" "last r = CHR ''-''"
  shows "parse_exponent r = None"
proof (cases r)
  case Nil
  then show ?thesis using assms by simp
next
  case (Cons c t)
  show ?thesis
  proof (cases t)
    case Nil
    then show ?thesis using Cons by (simp add: parse_exponent_def)
  next
    case (Cons d u)
    have lt: "last t = CHR ''-''" using assms \<open>r = c # t\<close> Cons by simp
    have nt: "\<not> list_all is_digit t"
      by (rule not_all_digits_last_minus) (use Cons lt in auto)
    have nu: "u \<noteq> [] \<Longrightarrow> \<not> list_all is_digit u"
      by (rule not_all_digits_last_minus) (use Cons lt in auto)
    show ?thesis using \<open>r = c # t\<close> Cons nt nu
      by (auto simp: parse_exponent_def)
  qed
qed

lemma parse_unsigned_last_minus: "parse_unsigned (y @ ''-'') = None"
proof -
  let ?s = "y @ ''-''"
  let ?r1 = "dropWhile is_digit ?s"
  have r1: "?r1 \<noteq> []" "last ?r1 = CHR ''-''"
    using dropWhile_snoc_last [of is_digit "CHR ''-''" y] minus_not_digit by simp_all
  obtain c t where ct: "?r1 = c # t" using r1(1) by (cases ?r1) auto
  show ?thesis
  proof (cases "c = CHR ''.''")
    case False
    have "parse_exponent ?r1 = None" using r1 by (rule parse_exponent_last_minus)
    then show ?thesis using ct False
      by (simp add: parse_unsigned_def Let_def)
  next
    case True
    have t: "t \<noteq> []" "last t = CHR ''-''" using r1(2) ct True by (auto split: if_splits)
    obtain y' where y': "t = y' @ ''-''" using t by (metis append_butlast_last_id)
    have "dropWhile is_digit t \<noteq> [] \<and> last (dropWhile is_digit t) = CHR ''-''"
      unfolding y' using dropWhile_snoc_last [of is_digit "CHR ''-''" y'] minus_not_digit by simp
    then have "parse_exponent (dropWhile is_digit t) = None"
      using parse_exponent_last_minus by blast
    then show ?thesis using ct True
      by (simp add: parse_unsigned_def Let_def)
  qed
qed

lemma cleaned_parenthesized: "cleaned (''('' @ x @ '')'') = ''-'' @ cleaned x @ ''-''"
  by (simp add: cleaned_def strip_currency_def parens_to_minus_def is_space_def)

lemma to_numeric_parenthesized: "to_numeric (cleaned (''('' @ x @ '')'')) = None"
proof -
  have c: "cleaned (''('' @ x @ '')'') = CHR ''-'' # (cleaned x @ ''-'')"
    using cleaned_parenthesized [of x] by simp
  show ?thesis
    unfolding c using parse_unsigned_last_minus [of "cleaned x"]
    by (simp add: to_numeric_def)
qed

text \<open>
  C9. A parenthesised amount does not come out as the negated number. Both parentheses
  become minus signs, so whatever stands between them the cleaned string ends in a minus
  sign, which is not a number, and \<open>clean_amount\<close> returns NaN: \<open>(4.50)\<close> is cleaned to
  \<open>-4.50-\<close> and \<open>($1,234.56)\<close> to \<open>-1234.56-\<close>.
\<close>

theorem clean_amount_parenthesized_is_nan:
  "(\<forall>x. clean_amount [''('' @ x @ '')''] = [None]) \<and>
   cleaned ''(4.50)'' = ''-4.50-'' \<and> cleaned ''($1,234.56)'' = ''-1234.56-'' \<and>
   clean_amount [''(4.50)'', ''($1,234.56)''] = [None, None]"
proof -
  have "clean_amount [''('' @ x @ '')''] = [None]" for x
    using to_numeric_parenthesized [of x] by (simp add: clean_amount_def)
  moreover have "cleaned ''(4.50)'' = ''-4.50-'' \<and> cleaned ''($1,234.56)'' = ''-1234.56-''"
    by (simp add: cleaned_def parens_to_minus_def strip_currency_def is_space_def)
  moreover have "clean_amount [''(4.50)'', ''($1,234.56)''] = [None, None]"
    by (simp add: clean_amount_def cleaned_def parens_to_minus_def strip_currency_def is_space_def
        to_numeric_def parse_unsigned_def parse_exponent_def scale10_def digits_val_def
        digit_val_def is_digit_def)
  ultimately show ?thesis by blast
qed

text \<open>
  The same two cells through the sibling loader, and a frame through
  \<open>parse_amount_series\<close>: csv\_to\_raw.py negates the parenthesised amounts, while the
  single amount column of csv\_to\_postgres.py yields NaN for them.
\<close>

lemma clean_amount_raw_negates_parenthesized:
  "clean_amount_raw [''(4.50)'', ''($1,234.56)'', ''4.50''] =
     [Some (- (9 / 2)), Some (- (30864 / 25)), Some (9 / 2)]"
  by (simp add: clean_amount_raw_def parenthesized_def strip_def is_space_def
      to_numeric_def parse_unsigned_def parse_exponent_def scale10_def digits_val_def
      digit_val_def is_digit_def)

lemma parse_amount_series_parenthesized:
  "parse_amount_series
     [(''Date'', [''2024-01-03'', ''2024-01-04'']), (''Amount'', [''(4.50)'', ''4.50''])]
     = Some [None, Some (9 / 2)]"
  by (simp add: parse_amount_series_def first_present_def
      columns_def column_def AMOUNT_SINGLE_def
      clean_amount_def cleaned_def parens_to_minus_def strip_currency_def is_space_def
      to_numeric_def parse_unsigned_def parse_exponent_def scale10_def digits_val_def
      digit_val_def is_digit_def)

lemma parse_amount_series_examples:
  "parse_amount_series [(''Date'', [''2024-01-03'', ''2024-01-04'']), (''Debit'', [''4.50'', ''nan'']), (''Credit'', [''nan'', ''10''])]
     = Some [Some (- (9 / 2)), Some 10] \<and>
   parse_amount_series [(''Date'', [''2024-01-03'', ''2024-01-04'']), (''Type'', [''DEBIT'', ''Credit'']), (''Amount USD'', [''4.50'', ''10''])]
     = Some [Some (- (9 / 2)), Some 10] \<and>
   parse_amount_series [(''Date'', [''2024-01-03'']), (''Memo'', [''x''])] = None"
  by code_simp

lemma row_payload_row_dict:
  "row_payload L (row_dict r) =
     Inr \<lparr> p_date = (if Date r = ''NaT'' then '''' else Date r), p_desc = Description r,
           p_amount = Amount r, p_txn = TxnId r, p_ref = Reference r, p_time = Time r,
           p_acct = Account r,
           p_bal = (case Balance r of BalanceNum b \<Rightarrow> Some b | _ \<Rightarrow> None) \<rparr>"
  by (simp add: row_payload_def row_dict_def get_def isna_def date_val_def amount_val_def
      py_float_def py_str_def balance_to_cell_def Let_def split: balance_cell.split)

lemma row_payload_empty:
  "row_payload L Map.empty =
     Inr \<lparr> p_date = '''', p_desc = '''', p_amount = 0, p_txn = '''', p_ref = '''',
           p_time = '''', p_acct = '''', p_bal = None \<rparr>"
  by (simp add: row_payload_def get_def isna_def date_val_def amount_val_def
      py_float_def py_str_def Let_def)

text \<open>
  C4. The content hash is a function of the eight fingerprint fields: two frame rows that
  agree on date, description, amount, transaction id, reference, time, account and balance
  have the same hash, so changing only the source does not change it; the hash is defined
  for every frame row; and fields that are absent (empty columns, or keys missing from the
  dictionary) enter the payload as the empty string, the amount as zero, never omitted.
\<close>

theorem row_content_hash_pure_total:
  "(Date r1 = Date r2 \<and> Description r1 = Description r2 \<and> Amount r1 = Amount r2 \<and>
    TxnId r1 = TxnId r2 \<and> Reference r1 = Reference r2 \<and> Time r1 = Time r2 \<and>
    Account r1 = Account r2 \<and> Balance r1 = Balance r2
      \<longrightarrow> row_content_hash L (row_dict r1) = row_content_hash L (row_dict r2)) \<and>
   row_content_hash L (row_dict (r\<lparr>Source := s\<rparr>)) = row_content_hash L (row_dict r) \<and>
   (\<exists>h. row_content_hash L (row_dict r) = Inr h) \<and>
   row_payload L (row_dict (r\<lparr>TxnId := '''', Reference := '''', Time := '''', Account := '''',
                              Balance := BalanceBlank\<rparr>)) =
     Inr \<lparr> p_date = (if Date r = ''NaT'' then '''' else Date r), p_desc = Description r,
           p_amount = Amount r, p_txn = '''', p_ref = '''', p_time = '''', p_acct = '''',
           p_bal = None \<rparr> \<and>
   row_payload L Map.empty =
     Inr \<lparr> p_date = '''', p_desc = '''', p_amount = 0, p_txn = '''', p_ref = '''',
           p_time = '''', p_acct = '''', p_bal = None \<rparr>"
  by (simp add: row_content_hash_def row_payload_row_dict row_payload_empty)

theorem row_content_hash_pure_total_witness:
  "\<forall>L. (Date coffee = Date (coffee\<lparr>Source := ''checking''\<rparr>) \<and>
         Description coffee = Description (coffee\<lparr>Source := ''checking''\<rparr>) \<and>
         Amount coffee = Amount (coffee\<lparr>Source := ''checking''\<rparr>) \<and>
         TxnId coffee = TxnId (coffee\<lparr>Source := ''checking''\<rparr>) \<and>
         Reference coffee = Reference (coffee\<lparr>Source := ''checking''\<rparr>) \<and>
         Time coffee = Time (coffee\<lparr>Source := ''checking''\<rparr>) \<and>
         Account coffee = Account (coffee\<lparr>Source := ''checking''\<rparr>) \<and>
         Balance coffee = Balance (coffee\<lparr>Source := ''checking''\<rparr>)) \<and>
        coffee \<noteq> coffee\<lparr>Source := ''checking''\<rparr> \<and>
        row_content_hash L (row_dict coffee) =
          row_content_hash L (row_dict (coffee\<lparr>Source := ''checking''\<rparr>)) \<and>
        row_content_hash L (row_dict coffee) =
          Inr (take 16 (sha256_hex L (json_dumps L
            \<lparr> p_date = ''2024-01-03'', p_desc = ''COFFEE SHOP #102'', p_amount = - (9 / 2),
              p_txn = '''', p_ref = '''', p_time = '''', p_acct = '''', p_bal = Some 100 \<rparr>)))"
proof (intro allI)
  fix L
  show "(Date coffee = Date (coffee\<lparr>Source := ''checking''\<rparr>) \<and>
         Description coffee = Description (coffee\<lparr>Source := ''checking''\<rparr>) \<and>
         Amount coffee = Amount (coffee\<lparr>Source := ''checking''\<rparr>) \<and>
         TxnId coffee = TxnId (coffee\<lparr>Source := ''checking''\<rparr>) \<and>
         Reference coffee = Reference (coffee\<lparr>Source := ''checking''\<rparr>) \<and>
         Time coffee = Time (coffee\<lparr>Source := ''checking''\<rparr>) \<and>
         Account coffee = Account (coffee\<lparr>Source := ''checking''\<rparr>) \<and>
         Balance coffee = Balance (coffee\<lparr>Source := ''checking''\<rparr>)) \<and>
        coffee \<noteq> coffee\<lparr>Source := ''checking''\<rparr> \<and>
        row_content_hash L (row_dict coffee) =
          row_content_hash L (row_dict (coffee\<lparr>Source := ''checking''\<rparr>)) \<and>
        row_content_hash L (row_dict coffee) =
          Inr (take 16 (sha256_hex L (json_dumps L
            \<lparr> p_date = ''2024-01-03'', p_desc = ''COFFEE SHOP #102'', p_amount = - (9 / 2),
              p_txn = '''', p_ref = '''', p_time = '''', p_acct = '''', p_bal = Some 100 \<rparr>)))"
    using row_content_hash_pure_total [of coffee "coffee\<lparr>Source := ''checking''\<rparr>" L]
    by (simp add: coffee_def row_content_hash_def row_payload_row_dict)
qed



lemma ddf_subset: "set (drop_duplicates_from key seen xs) \<subseteq> set xs"
  by (induction xs arbitrary: seen) auto

lemma ddf_subseq: "subseq (drop_duplicates_from key seen xs) xs"
  by (induction xs arbitrary: seen) auto

lemma ddf_keys: "key ` set (drop_duplicates_from key seen xs) = key ` set xs - set seen"
  by (induction xs arbitrary: seen) auto

lemma ddf_distinct: "distinct (map key (drop_duplicates_from key seen xs))"
  by (induction xs arbitrary: seen) (auto simp: ddf_keys)

lemma ddf_find:
  "find (\<lambda>x. key x = k) (drop_duplicates_from key seen xs) =
     (if k \<in> set seen then None else find (\<lambda>x. key x = k) xs)"
  by (induction xs arbitrary: seen) auto

lemma find_filter_conj: "find Q (filter P xs) = find (\<lambda>x. P x \<and> Q x) xs"
  by (induction xs) auto

lemma find_append_split:
  "find P (xs @ ys) = (case find P xs of None \<Rightarrow> find P ys | Some x \<Rightarrow> Some x)"
  by (induction xs) auto

lemma find_all_mask:
  "\<forall>x \<in> set xs. P x \<Longrightarrow> find (\<lambda>x. P x \<and> Q x) xs = find Q xs"
  by (induction xs) auto

lemma find_none_mask:
  "\<forall>x \<in> set xs. \<not> P x \<Longrightarrow> find (\<lambda>x. P x \<and> Q x) xs = None"
  by (induction xs) auto

lemma filter_all: "\<forall>x \<in> set xs. P x \<Longrightarrow> filter P xs = xs"
  by (induction xs) auto

lemma filter_none: "\<forall>x \<in> set xs. \<not> P x \<Longrightarrow> filter P xs = []"
  by (induction xs) auto

lemma dd_mask: "\<forall>x \<in> set (drop_duplicates key (filter carries xs)). carries x"
  using ddf_subset [of key "[]" "filter carries xs"] by (auto simp: drop_duplicates_def)

lemma keeps_first_split:
  "keeps_first carries key xs (drop_duplicates key (filter carries xs) @ filter (\<lambda>r. \<not> carries r) xs)"
proof -
  let ?d = "drop_duplicates key (filter carries xs)"
  let ?n = "filter (\<lambda>r. \<not> carries r) xs"
  have m: "\<forall>x \<in> set ?d. carries x" by (rule dd_mask)
  have n: "\<forall>x \<in> set ?n. \<not> carries x" by simp
  have f1: "filter (\<lambda>r. \<not> carries r) ?d = []" using m by (intro filter_none) simp
  have f2: "filter carries ?d = ?d" using m by (rule filter_all)
  have f3: "filter carries ?n = []" by (induction xs) auto
  have a: "filter (\<lambda>r. \<not> carries r) (?d @ ?n) = ?n" by (simp add: f1)
  have b: "filter carries (?d @ ?n) = ?d" by (simp add: f2 f3)
  have c: "subseq ?d (filter carries xs)" by (simp add: drop_duplicates_def ddf_subseq)
  have d: "distinct (map key ?d)" by (simp add: drop_duplicates_def ddf_distinct)
  have e: "find (\<lambda>r. carries r \<and> key r = k) (?d @ ?n) = find (\<lambda>r. carries r \<and> key r = k) xs" for k
  proof -
    have "find (\<lambda>r. carries r \<and> key r = k) ?d = find (\<lambda>r. key r = k) ?d"
      using m by (rule find_all_mask)
    also have "\<dots> = find (\<lambda>r. key r = k) (filter carries xs)"
      by (simp add: drop_duplicates_def ddf_find)
    also have "\<dots> = find (\<lambda>r. carries r \<and> key r = k) xs" by (rule find_filter_conj)
    finally have 1: "find (\<lambda>r. carries r \<and> key r = k) ?d = find (\<lambda>r. carries r \<and> key r = k) xs" .
    have 2: "find (\<lambda>r. carries r \<and> key r = k) ?n = None" using n by (rule find_none_mask)
    show ?thesis by (simp add: find_append_split 1 2 split: option.split)
  qed
  show ?thesis unfolding keeps_first_def using a b c d e by simp
qed

lemma keeps_first_skip:
  "\<not> list_ex carries xs \<Longrightarrow> keeps_first carries key xs xs"
  by (simp add: keeps_first_def list_ex_iff filter_none)

lemma keeps_first_rule1: "keeps_first mask1 key1 df (rule1 df)"
  by (simp add: rule1_def keeps_first_split keeps_first_skip)

lemma keeps_first_rule2: "keeps_first mask2 key2 df (rule2 df)"
  by (simp add: rule2_def keeps_first_split keeps_first_skip)

lemma keeps_first_rule3: "keeps_first (\<lambda>r. True) OriginalHash df (rule3 df)"
  using keeps_first_split [of "\<lambda>r. True" OriginalHash df] by (simp add: rule3_def)

lemma dedupe_as_rules: "deduplicate_dataframe df = rule3 (rule2 (rule1 df))"
  by (simp add: deduplicate_dataframe_def rule1_def rule2_def rule3_def drop_duplicates_def)

text \<open>
  C2, as amended. The three tiers run in the order 1, 2, 3. In each tier the rows that do
  not carry the tier's fields pass through untouched, and among the rows that carry them
  the first occurrence of each key, in the order of the rows the tier receives, is kept and
  the later ones are dropped. Tier 1 receives the batch in ingestion order; tiers 2 and 3
  receive the output of the tier before, in which the rows that carried that tier's fields
  stand in front of the others.
\<close>

theorem deduplicate_tiers_keep_first_of_tier_input:
  "deduplicate_dataframe df = rule3 (rule2 (rule1 df)) \<and>
   keeps_first mask1 key1 df (rule1 df) \<and>
   keeps_first mask2 key2 (rule1 df) (rule2 (rule1 df)) \<and>
   keeps_first (\<lambda>r. True) OriginalHash (rule2 (rule1 df)) (deduplicate_dataframe df)"
  by (simp add: dedupe_as_rules keeps_first_rule1 keeps_first_rule2 keeps_first_rule3)


theorem deduplicate_tiers_keep_first_of_tier_input_witness:
  "rule1 [coffee_ref, coffee_ref_txn] = [coffee_ref_txn, coffee_ref] \<and>
   keeps_first mask1 key1 [coffee_ref, coffee_ref_txn] [coffee_ref_txn, coffee_ref] \<and>
   keeps_first mask2 key2 [coffee_ref_txn, coffee_ref] (rule2 [coffee_ref_txn, coffee_ref]) \<and>
   rule2 [coffee_ref_txn, coffee_ref] = [coffee_ref_txn]"
proof -
  have r1: "rule1 [coffee_ref, coffee_ref_txn] = [coffee_ref_txn, coffee_ref]"
    by (simp add: rule1_def drop_duplicates_def mask1_def key1_def coffee_ref_def
        coffee_ref_txn_def coffee_def)
  have r2: "rule2 [coffee_ref_txn, coffee_ref] = [coffee_ref_txn]"
    by (simp add: rule2_def drop_duplicates_def mask2_def key2_def coffee_ref_def
        coffee_ref_txn_def coffee_def)
  show ?thesis
    using deduplicate_tiers_keep_first_of_tier_input [of "[coffee_ref, coffee_ref_txn]"]
    by (simp add: r1 r2)
qed

text \<open>
  C2 as stated fails: in the batch below the first row has a reference and no transaction
  id, the second has the same reference, date, amount and time and also a transaction id
  and an account. Rule 1 moves the second row in front, so rule 2 keeps the second row and
  drops the first one in ingestion order.
\<close>

theorem tier2_keeps_later_row_counterexample:
  "mask2 coffee_ref \<and> mask2 coffee_ref_txn \<and> key2 coffee_ref = key2 coffee_ref_txn \<and>
   coffee_ref_txn \<noteq> coffee_ref \<and>
   deduplicate_dataframe [coffee_ref, coffee_ref_txn] = [coffee_ref_txn]"
  by (simp add: deduplicate_dataframe_def rule1_def rule2_def rule3_def drop_duplicates_def
      mask1_def mask2_def key1_def key2_def coffee_ref_def coffee_ref_txn_def coffee_def)

lemma ddf_keeps:
  "r \<in> set xs \<Longrightarrow> key r \<notin> set seen \<Longrightarrow> (\<forall>r' \<in> set xs. r' \<noteq> r \<longrightarrow> key r' \<noteq> key r)
     \<Longrightarrow> r \<in> set (drop_duplicates_from key seen xs)"
  by (induction xs arbitrary: seen) auto

lemma dd_keeps:
  "r \<in> set xs \<Longrightarrow> (\<forall>r' \<in> set xs. r' \<noteq> r \<longrightarrow> key r' \<noteq> key r)
     \<Longrightarrow> r \<in> set (drop_duplicates key xs)"
  by (simp add: drop_duplicates_def ddf_keeps)

lemma dd_subset: "set (drop_duplicates key xs) \<subseteq> set xs"
  by (simp add: drop_duplicates_def ddf_subset)

lemma rule1_subset: "set (rule1 df) \<subseteq> set df"
  using dd_subset [of key1 "filter mask1 df"] by (auto simp: rule1_def)

lemma rule2_subset: "set (rule2 df) \<subseteq> set df"
  using dd_subset [of key2 "filter mask2 df"] by (auto simp: rule2_def)

lemma rule1_keeps:
  assumes "r \<in> set df" "\<forall>r' \<in> set df. r' \<noteq> r \<longrightarrow> \<not> (mask1 r \<and> mask1 r' \<and> key1 r = key1 r')"
  shows "r \<in> set (rule1 df)"
proof (cases "mask1 r")
  case True
  have "r \<in> set (drop_duplicates key1 (filter mask1 df))"
    by (rule dd_keeps) (use assms True in auto)
  then show ?thesis using assms True by (auto simp: rule1_def)
next
  case False
  then show ?thesis using assms by (auto simp: rule1_def)
qed

lemma rule2_keeps:
  assumes "r \<in> set df" "\<forall>r' \<in> set df. r' \<noteq> r \<longrightarrow> \<not> (mask2 r \<and> mask2 r' \<and> key2 r = key2 r')"
  shows "r \<in> set (rule2 df)"
proof (cases "mask2 r")
  case True
  have "r \<in> set (drop_duplicates key2 (filter mask2 df))"
    by (rule dd_keeps) (use assms True in auto)
  then show ?thesis using assms True by (auto simp: rule2_def)
next
  case False
  then show ?thesis using assms by (auto simp: rule2_def)
qed

lemma rule3_keeps:
  assumes "r \<in> set df" "\<forall>r' \<in> set df. r' \<noteq> r \<longrightarrow> OriginalHash r \<noteq> OriginalHash r'"
  shows "r \<in> set (rule3 df)"
  unfolding rule3_def by (rule dd_keeps) (use assms in auto)

lemma dedupe_keeps:
  assumes "r \<in> set df" "\<forall>r' \<in> set df. r' \<noteq> r \<longrightarrow> \<not> shares_tier_key r r'"
  shows "r \<in> set (deduplicate_dataframe df)"
proof -
  have 1: "r \<in> set (rule1 df)"
    by (rule rule1_keeps) (use assms in \<open>auto simp: shares_tier_key_def\<close>)
  have 2: "r \<in> set (rule2 (rule1 df))"
    by (rule rule2_keeps[OF 1]) (use assms rule1_subset[of df] in \<open>auto simp: shares_tier_key_def\<close>)
  have 3: "r \<in> set (rule3 (rule2 (rule1 df)))"
    by (rule rule3_keeps[OF 2])
      (use assms rule1_subset[of df] rule2_subset[of "rule1 df"] in \<open>auto simp: shares_tier_key_def\<close>)
  show ?thesis using 3 assms(1) by (auto simp: deduplicate_dataframe_def)
qed

lemma start_operation_tables:
  "transactions (snd (start_operation d op src det)) = transactions d"
  "duplicate_review (snd (start_operation d op src det)) = duplicate_review d"
  by (simp_all add: start_operation_def Let_def)

lemma complete_operation_tables:
  "transactions (complete_operation d i a b c e st det) = transactions d"
  "duplicate_review (complete_operation d i a b c e st det) = duplicate_review d"
  by (simp_all add: complete_operation_def)

lemma insert_batch_duplicate_review:
  "insert_transactions_batch accepts d ts = Inr (n, d') \<Longrightarrow> duplicate_review d' = duplicate_review d"
  by (auto simp: insert_transactions_batch_def split: if_splits)

lemma ingest_duplicate_review:
  "duplicate_review (snd (ingest L accepts ip files ef d all_data)) = duplicate_review d"
  using start_operation_tables(2) [of d "''csv_import_postgres''" "Some ip" "Some files"]
  by (auto simp: ingest_def Let_def complete_operation_tables split: prod.splits sum.splits
      dest: insert_batch_duplicate_review)

lemma possible_dup_group_row:
  "possible_dup_group L (row_dict r) =
     Inr (take 10 (sha256_hex L ((if Date r = ''NaT'' then '''' else Date r) @ ''|'' @
            strip (Description r) @ ''|'' @ fmt_2f L (Amount r))))"
  by (simp add: possible_dup_group_def row_dict_def get_def isna_def date_val_def amount_val_def
      py_float_def py_str_def Let_def)

lemma row_hash_stored [simp]: "row_hash (stored i p) = row_hash p"
  by (simp add: stored_def prepared.defs)

lemma map_row_hash_store_all [simp]: "map row_hash (store_all i ps) = map row_hash ps"
  by (induction ps arbitrary: i) auto

lemma existing_hashes_eq:
  "get_existing_row_hashes d hs = set (map row_hash (transactions d)) \<inter> set hs"
  by (auto simp: get_existing_row_hashes_def)

lemma new_transactions_eq:
  "filter (\<lambda>t. row_hash t \<notin> get_existing_row_hashes d (map row_hash ts)) ts =
   filter (\<lambda>t. row_hash t \<notin> set (map row_hash (transactions d))) ts"
  by (rule filter_cong) (auto simp: existing_hashes_eq)

lemma insert_batch_new:
  assumes "new = filter (\<lambda>t. row_hash t \<notin> set (map row_hash (transactions d))) ts" "new \<noteq> []"
  shows "insert_transactions_batch accepts d new =
           (if distinct (map row_hash new) \<and> list_all accepts new
            then Inr (length new, d\<lparr>transactions := transactions d @ store_all (next_tid (transactions d)) new\<rparr>)
            else Inl IntegrityError)"
proof -
  have "\<not> list_ex (\<lambda>t. row_hash t \<in> set (map row_hash (transactions d))) new"
    using assms(1) by (auto simp: list_ex_iff)
  then show ?thesis using assms(2) by (simp add: insert_transactions_batch_def)
qed

lemma ingest_outcome_eq:
  "fst (ingest L accepts ip files ef d all_data) =
     (if all_data = [] then Exit 1 0
      else case prepare_transactions_for_db L (deduplicate_dataframe (concat all_data)) of
             Inl e \<Rightarrow> Raised e
           | Inr ts \<Rightarrow>
               let new = filter (\<lambda>t. row_hash t \<notin> set (map row_hash (transactions d))) ts
               in if new = [] then Exit 0 0
                  else if distinct (map row_hash new) \<and> list_all accepts new
                  then Exit 0 (length new) else Exit 1 0)"
proof -
  obtain i d1 where so: "start_operation d ''csv_import_postgres'' (Some ip) (Some files) = (i, d1)"
    by (cases "start_operation d ''csv_import_postgres'' (Some ip) (Some files)")
  have t1: "transactions d1 = transactions d"
    using start_operation_tables(1) [of d "''csv_import_postgres''" "Some ip" "Some files"] so by simp
  show ?thesis
  proof (cases "all_data = []")
    case True
    then show ?thesis by (simp add: ingest_def so)
  next
    case False
    show ?thesis
    proof (cases "prepare_transactions_for_db L (deduplicate_dataframe (concat all_data))")
      case (Inl e)
      then show ?thesis using False by (simp add: ingest_def so)
    next
      case (Inr ts)
      define new where "new = filter (\<lambda>t. row_hash t \<notin> set (map row_hash (transactions d1))) ts"
      show ?thesis
      proof (cases "new = []")
        case True
        then show ?thesis using False Inr
          by (simp add: ingest_def so Let_def new_transactions_eq new_def t1)
      next
        case nn: False
        have ib: "insert_transactions_batch accepts d1 new =
           (if distinct (map row_hash new) \<and> list_all accepts new
            then Inr (length new, d1\<lparr>transactions := transactions d1 @ store_all (next_tid (transactions d1)) new\<rparr>)
            else Inl IntegrityError)"
          by (rule insert_batch_new[OF new_def nn])
        show ?thesis using False Inr nn ib
          by (simp add: ingest_def so Let_def new_transactions_eq new_def[symmetric])
            (simp add: new_def t1)
      qed
    qed
  qed
qed

lemma ingest_transactions_eq:
  "transactions (snd (ingest L accepts ip files ef d all_data)) =
     (if all_data = [] then transactions d
      else case prepare_transactions_for_db L (deduplicate_dataframe (concat all_data)) of
             Inl e \<Rightarrow> transactions d
           | Inr ts \<Rightarrow>
               let new = filter (\<lambda>t. row_hash t \<notin> set (map row_hash (transactions d))) ts
               in if new \<noteq> [] \<and> distinct (map row_hash new) \<and> list_all accepts new
                  then transactions d @ store_all (next_tid (transactions d)) new
                  else transactions d)"
proof -
  obtain i d1 where so: "start_operation d ''csv_import_postgres'' (Some ip) (Some files) = (i, d1)"
    by (cases "start_operation d ''csv_import_postgres'' (Some ip) (Some files)")
  have t1: "transactions d1 = transactions d"
    using start_operation_tables(1) [of d "''csv_import_postgres''" "Some ip" "Some files"] so by simp
  show ?thesis
  proof (cases "all_data = []")
    case True
    then show ?thesis by (simp add: ingest_def so complete_operation_tables t1)
  next
    case False
    show ?thesis
    proof (cases "prepare_transactions_for_db L (deduplicate_dataframe (concat all_data))")
      case (Inl e)
      then show ?thesis using False by (simp add: ingest_def so t1)
    next
      case (Inr ts)
      define new where "new = filter (\<lambda>t. row_hash t \<notin> set (map row_hash (transactions d1))) ts"
      show ?thesis
      proof (cases "new = []")
        case True
        then show ?thesis using False Inr
          by (simp add: ingest_def so Let_def new_transactions_eq new_def t1 complete_operation_tables)
      next
        case nn: False
        have ib: "insert_transactions_batch accepts d1 new =
           (if distinct (map row_hash new) \<and> list_all accepts new
            then Inr (length new, d1\<lparr>transactions := transactions d1 @ store_all (next_tid (transactions d1)) new\<rparr>)
            else Inl IntegrityError)"
          by (rule insert_batch_new[OF new_def nn])
        show ?thesis using False Inr nn ib
          by (simp add: ingest_def so Let_def new_transactions_eq new_def[symmetric] complete_operation_tables)
            (simp add: new_def t1 complete_operation_tables)
      qed
    qed
  qed
qed

lemma new_after_insert_empty:
  "filter (\<lambda>t. row_hash t \<notin> set (map row_hash (txs @ store_all i
       (filter (\<lambda>t. row_hash t \<notin> set (map row_hash txs)) ts)))) ts = []"
  by (auto simp: filter_empty_conv image_iff)

lemma new_empty_all_stored:
  "filter (\<lambda>t. row_hash t \<notin> set (map row_hash txs)) ts = [] \<Longrightarrow>
     set (map row_hash ts) \<subseteq> set (map row_hash txs)"
  by (auto simp: filter_empty_conv)

text \<open>
  C3, as amended. A second run of the import on the store that the first run left inserts
  no row: the table of transactions is the same after it, and its \<open>inserted_count\<close> is
  0. When the first run ended with exit code 0, the second run finds the hash of every
  prepared transaction in its lookup and ends with exit code 0 as well.
\<close>

theorem ingest_twice_idempotent:
  "transactions (snd (ingest L accepts ip2 files2 ef2 (snd (ingest L accepts ip files ef d all_data)) all_data))
     = transactions (snd (ingest L accepts ip files ef d all_data)) \<and>
   inserted_count (fst (ingest L accepts ip2 files2 ef2 (snd (ingest L accepts ip files ef d all_data)) all_data)) = 0 \<and>
   (\<forall>n ts. fst (ingest L accepts ip files ef d all_data) = Exit 0 n \<and>
            prepare_transactions_for_db L (deduplicate_dataframe (concat all_data)) = Inr ts
        \<longrightarrow> set (map row_hash ts)
               \<subseteq> get_existing_row_hashes (snd (ingest L accepts ip files ef d all_data)) (map row_hash ts) \<and>
            fst (ingest L accepts ip2 files2 ef2 (snd (ingest L accepts ip files ef d all_data)) all_data) = Exit 0 0)"
proof -
  let ?r1 = "ingest L accepts ip files ef d all_data"
  let ?r2 = "ingest L accepts ip2 files2 ef2 (snd ?r1) all_data"
  let ?T = "prepare_transactions_for_db L (deduplicate_dataframe (concat all_data))"
  show ?thesis
  proof (cases "all_data = []")
    case True
    then show ?thesis
      by (simp add: ingest_outcome_eq ingest_transactions_eq inserted_count_def)
  next
    case ne: False
    show ?thesis
    proof (cases ?T)
      case (Inl e)
      then show ?thesis using ne
        by (simp add: ingest_outcome_eq ingest_transactions_eq inserted_count_def)
    next
      case (Inr ts)
      define new where "new = filter (\<lambda>t. row_hash t \<notin> set (map row_hash (transactions d))) ts"
      have o1: "fst ?r1 = (if new = [] then Exit 0 0
                  else if distinct (map row_hash new) \<and> list_all accepts new
                  then Exit 0 (length new) else Exit 1 0)"
        using ne Inr by (simp add: ingest_outcome_eq new_def Let_def)
      have t1: "transactions (snd ?r1) =
                 (if new \<noteq> [] \<and> distinct (map row_hash new) \<and> list_all accepts new
                  then transactions d @ store_all (next_tid (transactions d)) new
                  else transactions d)"
        using ne Inr by (simp add: ingest_transactions_eq new_def Let_def)
      define new2 where "new2 = filter (\<lambda>t. row_hash t \<notin> set (map row_hash (transactions (snd ?r1)))) ts"
      have o2: "fst ?r2 = (if new2 = [] then Exit 0 0
                  else if distinct (map row_hash new2) \<and> list_all accepts new2
                  then Exit 0 (length new2) else Exit 1 0)"
        using ne Inr by (simp add: ingest_outcome_eq [of L accepts ip2 files2 ef2 "snd ?r1"] new2_def Let_def)
      have t2: "transactions (snd ?r2) =
                 (if new2 \<noteq> [] \<and> distinct (map row_hash new2) \<and> list_all accepts new2
                  then transactions (snd ?r1) @ store_all (next_tid (transactions (snd ?r1))) new2
                  else transactions (snd ?r1))"
        using ne Inr by (simp add: ingest_transactions_eq [of L accepts ip2 files2 ef2 "snd ?r1"] new2_def Let_def)
      show ?thesis
      proof (cases "new \<noteq> [] \<and> distinct (map row_hash new) \<and> list_all accepts new")
        case True
        then have "transactions (snd ?r1) = transactions d @ store_all (next_tid (transactions d)) new"
          using t1 by simp
        then have n2: "new2 = []"
          unfolding new2_def new_def by (simp only: new_after_insert_empty)
        have sub: "set (map row_hash ts) \<subseteq> set (map row_hash (transactions (snd ?r1)))"
          using n2 unfolding new2_def by (rule new_empty_all_stored)
        show ?thesis using n2 o2 t2 sub Inr
          by (auto simp: inserted_count_def existing_hashes_eq)
      next
        case False
        have same: "transactions (snd ?r1) = transactions d" using t1 False by auto
        then have n2: "new2 = new" by (simp add: new2_def new_def)
        show ?thesis
        proof (cases "new = []")
          case True
          have sub: "set (map row_hash ts) \<subseteq> set (map row_hash (transactions (snd ?r1)))"
            using new_empty_all_stored [of "transactions d" ts] True same
            unfolding new_def by simp
          show ?thesis using True n2 o2 t2 sub Inr
            by (auto simp: inserted_count_def existing_hashes_eq)
        next
          case nn: False
          then have "fst ?r1 = Exit 1 0" using o1 False by auto
          then show ?thesis using nn n2 o2 t2 False Inr
            by (auto simp: inserted_count_def)
        qed
      qed
    qed
  qed
qed

lemma prepare_row_hash:
  "prepare_row L r = Inr p \<Longrightarrow>
     row_hash p = stable_rowhash L (to_date L (Date r)) (Description r) (Amount r) \<and>
     date p = to_date L (Date r) \<and> description p = Description r \<and> amount p = Amount r"
  by (auto simp: prepare_row_def Let_def split: sum.splits if_splits)


lemma prepare_row_num:
  "Balance r = BalanceNum b \<Longrightarrow> \<exists>p. prepare_row L r = Inr p"
  by (simp add: prepare_row_def Let_def isna_def balance_to_cell_def py_float_def)

lemma dedupe_coffee_pair: "deduplicate_dataframe [coffee_t1, coffee_t2] = [coffee_t1, coffee_t2]"
  by (simp add: deduplicate_dataframe_def rule1_def rule2_def rule3_def drop_duplicates_def
      mask1_def mask2_def key1_def key2_def coffee_t1_def coffee_t2_def coffee_def)

lemma dedupe_coffee: "deduplicate_dataframe [coffee] = [coffee]"
  by (simp add: deduplicate_dataframe_def rule1_def rule2_def rule3_def drop_duplicates_def
      mask1_def mask2_def key1_def key2_def coffee_def)

lemma prepare_coffee_pair:
  "\<exists>p1 p2. prepare_transactions_for_db L [coffee_t1, coffee_t2] = Inr [p1, p2] \<and>
            row_hash p1 = row_hash p2"
proof -
  obtain p1 where 1: "prepare_row L coffee_t1 = Inr p1"
    using prepare_row_num [of coffee_t1 100 L] by (auto simp: coffee_t1_def coffee_def)
  obtain p2 where 2: "prepare_row L coffee_t2 = Inr p2"
    using prepare_row_num [of coffee_t2 100 L] by (auto simp: coffee_t2_def coffee_def)
  have "row_hash p1 = row_hash p2"
    using prepare_row_hash[OF 1] prepare_row_hash[OF 2]
    by (simp add: coffee_t1_def coffee_t2_def coffee_def)
  then show ?thesis using 1 2 by simp
qed

lemma ingest_coffee_pair:
  "fst (ingest L accepts ip files ef empty_db [[coffee_t1, coffee_t2]]) = Exit 1 0 \<and>
   transactions (snd (ingest L accepts ip files ef empty_db [[coffee_t1, coffee_t2]])) = []"
proof -
  obtain p1 p2 where p: "prepare_transactions_for_db L [coffee_t1, coffee_t2] = Inr [p1, p2]"
    "row_hash p1 = row_hash p2" using prepare_coffee_pair by blast
  show ?thesis
    by (simp add: ingest_outcome_eq ingest_transactions_eq dedupe_coffee_pair p empty_db_def
        del: prepare_transactions_for_db.simps)
qed

text \<open>
  C3 as stated fails in its account of the second run: for the batch of two rows that
  differ only in their transaction id, the first run is rejected by the unique
  \<open>row_hash\<close>, the store stays empty, and in the second run the lookup finds none of
  the prepared hashes, nothing is filtered out, and the insert is rejected again.
\<close>

theorem second_run_lookup_finds_nothing_counterexample:
  "\<forall>L accepts.
     fst (ingest L accepts ''downloads'' ''statement.csv'' 0 empty_db [[coffee_t1, coffee_t2]]) = Exit 1 0 \<and>
     (\<exists>ts. prepare_transactions_for_db L (deduplicate_dataframe (concat [[coffee_t1, coffee_t2]])) = Inr ts \<and>
           ts \<noteq> [] \<and>
           get_existing_row_hashes
             (snd (ingest L accepts ''downloads'' ''statement.csv'' 0 empty_db [[coffee_t1, coffee_t2]]))
             (map row_hash ts) = {}) \<and>
     fst (ingest L accepts ''downloads'' ''statement.csv'' 0
            (snd (ingest L accepts ''downloads'' ''statement.csv'' 0 empty_db [[coffee_t1, coffee_t2]]))
            [[coffee_t1, coffee_t2]]) = Exit 1 0"
proof (intro allI)
  fix L accepts
  let ?r1 = "ingest L accepts ''downloads'' ''statement.csv'' 0 empty_db [[coffee_t1, coffee_t2]]"
  obtain p1 p2 where p: "prepare_transactions_for_db L [coffee_t1, coffee_t2] = Inr [p1, p2]"
    "row_hash p1 = row_hash p2" using prepare_coffee_pair by blast
  have a: "fst ?r1 = Exit 1 0" and b: "transactions (snd ?r1) = []"
    using ingest_coffee_pair [of L accepts] by simp_all
  have c: "get_existing_row_hashes (snd ?r1) (map row_hash [p1, p2]) = {}"
    by (simp add: existing_hashes_eq b)
  have d: "fst (ingest L accepts ''downloads'' ''statement.csv'' 0 (snd ?r1) [[coffee_t1, coffee_t2]]) = Exit 1 0"
    by (simp add: ingest_outcome_eq [of L accepts _ _ _ "snd ?r1"] dedupe_coffee_pair p b
        del: prepare_transactions_for_db.simps)
  show "fst ?r1 = Exit 1 0 \<and>
     (\<exists>ts. prepare_transactions_for_db L (deduplicate_dataframe (concat [[coffee_t1, coffee_t2]])) = Inr ts \<and>
           ts \<noteq> [] \<and> get_existing_row_hashes (snd ?r1) (map row_hash ts) = {}) \<and>
     fst (ingest L accepts ''downloads'' ''statement.csv'' 0 (snd ?r1) [[coffee_t1, coffee_t2]]) = Exit 1 0"
    using a c d p(1) by (auto simp: dedupe_coffee_pair simp del: prepare_transactions_for_db.simps)
qed

theorem ingest_twice_idempotent_witness:
  "\<forall>L. fst (ingest L (\<lambda>t. True) ''downloads'' ''statement.csv'' 0 empty_db [[coffee]]) = Exit 0 1 \<and>
        length (transactions (snd (ingest L (\<lambda>t. True) ''downloads'' ''statement.csv'' 0 empty_db [[coffee]]))) = 1 \<and>
        fst (ingest L (\<lambda>t. True) ''downloads'' ''statement.csv'' 0
               (snd (ingest L (\<lambda>t. True) ''downloads'' ''statement.csv'' 0 empty_db [[coffee]]))
               [[coffee]]) = Exit 0 0 \<and>
        transactions (snd (ingest L (\<lambda>t. True) ''downloads'' ''statement.csv'' 0
               (snd (ingest L (\<lambda>t. True) ''downloads'' ''statement.csv'' 0 empty_db [[coffee]]))
               [[coffee]]))
          = transactions (snd (ingest L (\<lambda>t. True) ''downloads'' ''statement.csv'' 0 empty_db [[coffee]]))"
proof (intro allI)
  fix L
  let ?r1 = "ingest L (\<lambda>t. True) ''downloads'' ''statement.csv'' 0 empty_db [[coffee]]"
  let ?r2 = "ingest L (\<lambda>t. True) ''downloads'' ''statement.csv'' 0 (snd ?r1) [[coffee]]"
  obtain p where p: "prepare_row L coffee = Inr p"
    using prepare_row_num [of coffee 100 L] by (auto simp: coffee_def)
  have pt: "prepare_transactions_for_db L (deduplicate_dataframe (concat [[coffee]])) = Inr [p]"
    by (simp add: dedupe_coffee p)
  have a: "fst ?r1 = Exit 0 1"
    using pt by (simp add: ingest_outcome_eq empty_db_def)
  have b: "length (transactions (snd ?r1)) = 1"
    using pt by (simp add: ingest_transactions_eq empty_db_def)
  show "fst ?r1 = Exit 0 1 \<and> length (transactions (snd ?r1)) = 1 \<and> fst ?r2 = Exit 0 0 \<and>
        transactions (snd ?r2) = transactions (snd ?r1)"
    using ingest_twice_idempotent
      [of L "\<lambda>t. True" "''downloads''" "''statement.csv''" 0 "''downloads''" "''statement.csv''" 0
          empty_db "[[coffee]]"] a b pt
    by auto
qed







text \<open>
  C1, as amended. Two rows of a batch with the same date, trimmed description and amount
  and different transaction ids, neither of which shares a key of tiers 1 to 3 with
  another row of the batch, are both kept by \<open>deduplicate_dataframe\<close>; they get the same
  \<open>PossibleDupGroup\<close> tag; and ingestion of the batch leaves the table
  \<open>duplicate_review\<close> as it was: it creates no review group.
\<close>

theorem loose_match_survives_and_is_only_tagged:
  assumes "r1 \<in> set (concat all_data)" "r2 \<in> set (concat all_data)"
    and "Date r1 = Date r2" "strip (Description r1) = strip (Description r2)"
        "Amount r1 = Amount r2" "TxnId r1 \<noteq> TxnId r2"
    and "\<forall>r' \<in> set (concat all_data). r' \<noteq> r1 \<longrightarrow> \<not> shares_tier_key r1 r'"
    and "\<forall>r' \<in> set (concat all_data). r' \<noteq> r2 \<longrightarrow> \<not> shares_tier_key r2 r'"
  shows "r1 \<in> set (deduplicate_dataframe (concat all_data)) \<and>
         r2 \<in> set (deduplicate_dataframe (concat all_data)) \<and> r1 \<noteq> r2 \<and>
         possible_dup_group L (row_dict r1) = possible_dup_group L (row_dict r2) \<and>
         duplicate_review (snd (ingest L accepts ip files ef d all_data)) = duplicate_review d"
proof -
  have 1: "r1 \<in> set (deduplicate_dataframe (concat all_data))"
    using assms(1,7) by (rule dedupe_keeps)
  have 2: "r2 \<in> set (deduplicate_dataframe (concat all_data))"
    using assms(2,8) by (rule dedupe_keeps)
  have 3: "r1 \<noteq> r2" using assms(6) by auto
  have 4: "possible_dup_group L (row_dict r1) = possible_dup_group L (row_dict r2)"
    using assms(3,4,5) by (simp add: possible_dup_group_row)
  show ?thesis using 1 2 3 4 by (simp add: ingest_duplicate_review)
qed

lemma stored_fields [simp]:
  "date (stored i p) = date p" "description (stored i p) = description p"
  "amount (stored i p) = amount p" "tid (stored i p) = i" "deleted_at (stored i p) = None"
  by (simp_all add: stored_def prepared.defs txn.defs)


lemma no_tier_key_coffee_pair:
  "\<not> shares_tier_key coffee_t1 coffee_t2 \<and> \<not> shares_tier_key coffee_t2 coffee_t1"
  by (simp add: shares_tier_key_def mask1_def mask2_def key1_def key2_def
      coffee_t1_def coffee_t2_def coffee_def)

theorem loose_match_survives_and_is_only_tagged_witness:
  "\<forall>L accepts.
     coffee_t1 \<in> set (concat [[coffee_t1, coffee_t2]]) \<and>
     coffee_t2 \<in> set (concat [[coffee_t1, coffee_t2]]) \<and>
     Date coffee_t1 = Date coffee_t2 \<and>
     strip (Description coffee_t1) = strip (Description coffee_t2) \<and>
     Amount coffee_t1 = Amount coffee_t2 \<and> TxnId coffee_t1 \<noteq> TxnId coffee_t2 \<and>
     \<not> shares_tier_key coffee_t1 coffee_t2 \<and> \<not> shares_tier_key coffee_t2 coffee_t1 \<and>
     coffee_t1 \<in> set (deduplicate_dataframe (concat [[coffee_t1, coffee_t2]])) \<and>
     coffee_t2 \<in> set (deduplicate_dataframe (concat [[coffee_t1, coffee_t2]])) \<and>
     coffee_t1 \<noteq> coffee_t2 \<and>
     possible_dup_group L (row_dict coffee_t1) = possible_dup_group L (row_dict coffee_t2) \<and>
     duplicate_review (snd (ingest L accepts ''downloads'' ''statement.csv'' 0 empty_db
                              [[coffee_t1, coffee_t2]])) = duplicate_review empty_db"
proof (intro allI)
  fix L accepts
  have m: "coffee_t1 \<in> set (concat [[coffee_t1, coffee_t2]])"
          "coffee_t2 \<in> set (concat [[coffee_t1, coffee_t2]])" by simp_all
  have e: "Date coffee_t1 = Date coffee_t2"
          "strip (Description coffee_t1) = strip (Description coffee_t2)"
          "Amount coffee_t1 = Amount coffee_t2" "TxnId coffee_t1 \<noteq> TxnId coffee_t2"
    by (simp_all add: coffee_t1_def coffee_t2_def coffee_def)
  have n1: "\<forall>r' \<in> set (concat [[coffee_t1, coffee_t2]]). r' \<noteq> coffee_t1 \<longrightarrow> \<not> shares_tier_key coffee_t1 r'"
    using no_tier_key_coffee_pair by simp
  have n2: "\<forall>r' \<in> set (concat [[coffee_t1, coffee_t2]]). r' \<noteq> coffee_t2 \<longrightarrow> \<not> shares_tier_key coffee_t2 r'"
    using no_tier_key_coffee_pair by simp
  show "coffee_t1 \<in> set (concat [[coffee_t1, coffee_t2]]) \<and>
     coffee_t2 \<in> set (concat [[coffee_t1, coffee_t2]]) \<and>
     Date coffee_t1 = Date coffee_t2 \<and>
     strip (Description coffee_t1) = strip (Description coffee_t2) \<and>
     Amount coffee_t1 = Amount coffee_t2 \<and> TxnId coffee_t1 \<noteq> TxnId coffee_t2 \<and>
     \<not> shares_tier_key coffee_t1 coffee_t2 \<and> \<not> shares_tier_key coffee_t2 coffee_t1 \<and>
     coffee_t1 \<in> set (deduplicate_dataframe (concat [[coffee_t1, coffee_t2]])) \<and>
     coffee_t2 \<in> set (deduplicate_dataframe (concat [[coffee_t1, coffee_t2]])) \<and>
     coffee_t1 \<noteq> coffee_t2 \<and>
     possible_dup_group L (row_dict coffee_t1) = possible_dup_group L (row_dict coffee_t2) \<and>
     duplicate_review (snd (ingest L accepts ''downloads'' ''statement.csv'' 0 empty_db
                              [[coffee_t1, coffee_t2]])) = duplicate_review empty_db"
    using loose_match_survives_and_is_only_tagged
      [OF m e n1 n2, of L accepts "''downloads''" "''statement.csv''" 0 empty_db]
      m e no_tier_key_coffee_pair
    by blast
qed

text \<open>
  C1 as stated fails: the two rows below agree on date, description and amount and differ
  in their transaction id, both survive the deduplication, and after the ingestion of the
  batch into an empty store there is no row in \<open>duplicate_review\<close>, so no review group
  with the two rows (and, the two rows having the same \<open>row_hash\<close>, no stored
  transaction either).
\<close>

theorem ingestion_creates_no_review_group_counterexample:
  "\<forall>L accepts.
     Date coffee_t1 = Date coffee_t2 \<and> Description coffee_t1 = Description coffee_t2 \<and>
     Amount coffee_t1 = Amount coffee_t2 \<and> TxnId coffee_t1 \<noteq> TxnId coffee_t2 \<and>
     deduplicate_dataframe (concat [[coffee_t1, coffee_t2]]) = [coffee_t1, coffee_t2] \<and>
     duplicate_review (snd (ingest L accepts ''downloads'' ''statement.csv'' 0 empty_db
                              [[coffee_t1, coffee_t2]])) = [] \<and>
     transactions (snd (ingest L accepts ''downloads'' ''statement.csv'' 0 empty_db
                          [[coffee_t1, coffee_t2]])) = []"
proof (intro allI)
  fix L accepts
  have e: "Date coffee_t1 = Date coffee_t2 \<and> Description coffee_t1 = Description coffee_t2 \<and>
     Amount coffee_t1 = Amount coffee_t2 \<and> TxnId coffee_t1 \<noteq> TxnId coffee_t2"
    by (simp add: coffee_t1_def coffee_t2_def coffee_def)
  have r: "duplicate_review (snd (ingest L accepts ''downloads'' ''statement.csv'' 0 empty_db
                              [[coffee_t1, coffee_t2]])) = []"
    by (simp add: ingest_duplicate_review empty_db_def)
  show "Date coffee_t1 = Date coffee_t2 \<and> Description coffee_t1 = Description coffee_t2 \<and>
     Amount coffee_t1 = Amount coffee_t2 \<and> TxnId coffee_t1 \<noteq> TxnId coffee_t2 \<and>
     deduplicate_dataframe (concat [[coffee_t1, coffee_t2]]) = [coffee_t1, coffee_t2] \<and>
     duplicate_review (snd (ingest L accepts ''downloads'' ''statement.csv'' 0 empty_db
                              [[coffee_t1, coffee_t2]])) = [] \<and>
     transactions (snd (ingest L accepts ''downloads'' ''statement.csv'' 0 empty_db
                          [[coffee_t1, coffee_t2]])) = []"
    using e r ingest_coffee_pair [of L accepts "''downloads''" "''statement.csv''" 0]
    by (simp add: dedupe_coffee_pair)
qed


lemma mark_reviewed_tables [simp]:
  "transactions (mark_reviewed now params d) = transactions d"
  "processing_log (mark_reviewed now params d) = processing_log d"
  by (simp_all add: mark_reviewed_def)

lemma insert_log_tables [simp]:
  "transactions (insert_log params n res d) = transactions d"
  "duplicate_review (insert_log params n res d) = duplicate_review d"
  by (simp_all add: insert_log_def)

lemma soft_delete_tables [simp]:
  "duplicate_review (soft_delete now keep i d) = duplicate_review d"
  "processing_log (soft_delete now keep i d) = processing_log d"
  by (simp_all add: soft_delete_def)




lemma group_transactions_cong:
  "transactions d' = transactions d \<Longrightarrow> duplicate_review d' = duplicate_review d
     \<Longrightarrow> group_transactions d' gid = group_transactions d gid"
  by (simp add: group_transactions_def)



lemma mark_deleted_tid [simp]: "tid (mark_deleted now k t) = tid t"
  by (simp add: mark_deleted_def)

lemma mark_deleted_soft_deleted [simp]: "soft_deleted now (mark_deleted now k t)"
  by (simp add: mark_deleted_def soft_deleted_def append_note_def split: option.split)

lemma mark_deleted_again: "soft_deleted now t \<Longrightarrow> soft_deleted now (mark_deleted now k t)"
  by simp

lemma soft_delete_map_tid [simp]:
  "map tid (transactions (soft_delete now k i d)) = map tid (transactions d)"
  by (simp add: soft_delete_def comp_def)



















lemma coffee_tx_fields [simp]:
  "tid (coffee_tx i day oh grp rh) = i" "date (coffee_tx i day oh grp rh) = day"
  "deleted_at (coffee_tx i day oh grp rh) = None"
  by (simp_all add: coffee_tx_def)




























end
